theory Spec2Isabelle
  imports Main "HOL-Library.AList"
begin

section \<open>The cross-platform build script\<close>

text \<open>
  A shallow embedding of \<^verbatim>\<open>scripts/build-cross-platform.py\<close>. The script drives
  external programs and the file system, so every function of the model takes the
  environment (what the host answers) and a world (what the script has changed so far)
  and returns its Python outcome together with the new world.
\<close>

subsection \<open>Python values: exceptions and strings\<close>

text \<open>
  The exceptions the script can raise or let through. \<open>CalledProcessError\<close> carries
  the return code, the command, and the captured output streams, as the Python class does.
\<close>

datatype exn =
    CalledProcessError int "string list" string string
  | FileNotFoundError
  | FileExistsError
  | IsADirectoryError
  | NotADirectoryError
  | PermissionError
  | IndexError
  | SystemExit int

text \<open>\<^verbatim>\<open>s.split(c)\<close> for a one-character separator: every occurrence splits, empty fields are kept.\<close>

fun split_on :: "char \<Rightarrow> string \<Rightarrow> string list" where
  "split_on c [] = [[]]"
| "split_on c (x # xs) =
     (if x = c then [] # split_on c xs
      else (case split_on c xs of
              [] \<Rightarrow> [[x]]
            | y # ys \<Rightarrow> (x # y) # ys))"

text \<open>\<^verbatim>\<open>xs[i]\<close> for a non-negative index: out of range raises \<open>IndexError\<close>.\<close>

definition index :: "'a list \<Rightarrow> nat \<Rightarrow> exn + 'a" where
  "index xs i = (if i < length xs then Inr (xs ! i) else Inl IndexError)"

text \<open>
  The first statement of \<^verbatim>\<open>build_target\<close> after the banner:
  \<^verbatim>\<open>target_os = target.split('-')[2] if '-' in target else 'unknown'\<close>.
\<close>

definition target_os :: "string \<Rightarrow> exn + string" where
  "target_os target =
     (if CHR ''-'' \<in> set target then index (split_on CHR ''-'' target) 2
      else Inr ''unknown'')"

text \<open>
  \<^verbatim>\<open>s.lower()\<close> on ASCII text (\<^verbatim>\<open>platform.system()\<close> answers with an ASCII name) and
  \<^verbatim>\<open>s.strip()\<close>, which removes the white space of both ends: the ASCII characters that
  Python counts as white space are 9 to 13, 28 to 31 and the blank.
\<close>

definition lower_char :: "char \<Rightarrow> char" where
  "lower_char c =
     (case map_of (zip ''ABCDEFGHIJKLMNOPQRSTUVWXYZ'' ''abcdefghijklmnopqrstuvwxyz'') c of
        None \<Rightarrow> c
      | Some l \<Rightarrow> l)"

definition lower :: "string \<Rightarrow> string" where
  "lower s = map lower_char s"

definition is_space :: "char \<Rightarrow> bool" where
  "is_space c = (let n = (of_char c :: nat) in (9 \<le> n \<and> n \<le> 13) \<or> (28 \<le> n \<and> n \<le> 32))"

definition strip :: "string \<Rightarrow> string" where
  "strip s = rev (dropWhile is_space (rev (dropWhile is_space s)))"

text \<open>\<^verbatim>\<open>s.startswith(p)\<close>; the glob pattern \<^verbatim>\<open>rbx-studio-mcp-*\<close> selects the names that start with its literal part.\<close>

definition startswith :: "string \<Rightarrow> string \<Rightarrow> bool" where
  "startswith s p = (take (length p) s = p)"

text \<open>\<^verbatim>\<open>sep.join(xs)\<close>.\<close>

fun join :: "string \<Rightarrow> string list \<Rightarrow> string" where
  "join s [] = []"
| "join s [x] = x"
| "join s (x # y # ys) = x @ s @ join s (y # ys)"

subsection \<open>The file system\<close>

text \<open>
  A path is the list of its components (\<^verbatim>\<open>Path("target") / target / "release"\<close> is
  \<open>[''target'', target, ''release'']\<close>, for a target that is one component), relative to
  the working directory, which is the empty path. A node is a regular file with its content,
  permission mode and modification time, or a directory. The file system is a finite table
  from paths to nodes; the order of the table is the order in which a directory is
  enumerated.
\<close>

type_synonym path = "string list"

datatype node = File (content: string) (mode: nat) (mtime: nat) | Dir

type_synonym filesys = "(path \<times> node) list"

definition lookup :: "filesys \<Rightarrow> path \<Rightarrow> node option" where
  "lookup fsys p = map_of fsys p"

definition store :: "path \<Rightarrow> node \<Rightarrow> filesys \<Rightarrow> filesys" where
  "store p n fsys = AList.update p n fsys"

text \<open>\<^verbatim>\<open>p.exists()\<close>, \<^verbatim>\<open>p.is_file()\<close>, \<^verbatim>\<open>p.is_dir()\<close>. The working directory always is a directory.\<close>

definition path_exists :: "filesys \<Rightarrow> path \<Rightarrow> bool" where
  "path_exists fsys p = (p = [] \<or> lookup fsys p \<noteq> None)"

definition is_file :: "filesys \<Rightarrow> path \<Rightarrow> bool" where
  "is_file fsys p = (case lookup fsys p of Some (File c m t) \<Rightarrow> p \<noteq> [] | _ \<Rightarrow> False)"

definition is_dir :: "filesys \<Rightarrow> path \<Rightarrow> bool" where
  "is_dir fsys p = (p = [] \<or> lookup fsys p = Some Dir)"

text \<open>
  The permission bits the script depends on, for a process that runs as the owner of the
  files and not as the superuser: \<^verbatim>\<open>0o400\<close> lets it read a file, \<^verbatim>\<open>0o200\<close> lets it write
  one. \<open>can_read\<close> and \<open>can_write\<close> say that a path is free or holds a regular file that
  can be read, or written.
\<close>

definition readable :: "nat \<Rightarrow> bool" where
  "readable m = odd (m div 256)"

definition writable :: "nat \<Rightarrow> bool" where
  "writable m = odd (m div 128)"

definition can_read :: "filesys \<Rightarrow> path \<Rightarrow> bool" where
  "can_read fsys p =
     (case lookup fsys p of None \<Rightarrow> True | Some Dir \<Rightarrow> False | Some (File c m t) \<Rightarrow> readable m)"

definition can_write :: "filesys \<Rightarrow> path \<Rightarrow> bool" where
  "can_write fsys p =
     (case lookup fsys p of None \<Rightarrow> True | Some Dir \<Rightarrow> False | Some (File c m t) \<Rightarrow> writable m)"

text \<open>The names of the entries of directory \<open>d\<close>, each once.\<close>

definition listdir :: "filesys \<Rightarrow> path \<Rightarrow> string list" where
  "listdir fsys d = remdups (map last (filter (\<lambda>p. p \<noteq> [] \<and> butlast p = d) (map fst fsys)))"

text \<open>
  \<^verbatim>\<open>d.glob(prefix + "*")\<close>: the entries of \<open>d\<close> whose names start with the prefix, as paths;
  nothing when \<open>d\<close> is not a directory.
\<close>

definition glob :: "filesys \<Rightarrow> path \<Rightarrow> string \<Rightarrow> path list" where
  "glob fsys d pre =
     (if is_dir fsys d then map (\<lambda>n. d @ [n]) (filter (\<lambda>n. startswith n pre) (listdir fsys d))
      else [])"

text \<open>
  \<^verbatim>\<open>p.mkdir(exist_ok=True)\<close>: creates the directory, accepts an existing directory, and
  raises \<open>FileExistsError\<close> when the path is a regular file.
\<close>

definition mkdir_exist_ok :: "path \<Rightarrow> filesys \<Rightarrow> exn + filesys" where
  "mkdir_exist_ok p fsys =
     (case lookup fsys p of
        None \<Rightarrow> Inr (store p Dir fsys)
      | Some Dir \<Rightarrow> Inr fsys
      | Some (File c m t) \<Rightarrow> Inl FileExistsError)"

text \<open>
  \<^verbatim>\<open>shutil.copy2(src, dst)\<close>: a destination that is a directory receives the file under
  the source's name; the source is opened for reading, then the destination for writing; the
  copy has the content of the source and, by \<^verbatim>\<open>copystat\<close>, its mode and modification time.
  A source or final destination that is a directory raises, and so does a source that
  cannot be read or an existing destination that cannot be written.
\<close>

definition copy2 :: "path \<Rightarrow> path \<Rightarrow> filesys \<Rightarrow> exn + filesys" where
  "copy2 src dst fsys =
     (let dst' = (if is_dir fsys dst then dst @ [last src] else dst) in
      case lookup fsys src of
        None \<Rightarrow> Inl FileNotFoundError
      | Some Dir \<Rightarrow> Inl IsADirectoryError
      | Some (File c m t) \<Rightarrow>
          (if \<not> readable m then Inl PermissionError
           else if is_dir fsys dst' then Inl IsADirectoryError
           else if \<not> is_dir fsys (butlast dst') then Inl FileNotFoundError
           else if \<not> can_write fsys dst' then Inl PermissionError
           else Inr (store dst' (File c m t) fsys)))"

text \<open>\<^verbatim>\<open>os.chmod(p, m)\<close>; the modes of directories are not part of the model.\<close>

definition chmod :: "path \<Rightarrow> nat \<Rightarrow> filesys \<Rightarrow> exn + filesys" where
  "chmod p m' fsys =
     (case lookup fsys p of
        None \<Rightarrow> Inl FileNotFoundError
      | Some Dir \<Rightarrow> Inr fsys
      | Some (File c m t) \<Rightarrow> Inr (store p (File c m' t) fsys))"

subsection \<open>The host and the world\<close>

text \<open>
  What an external process does: the executable is not found, or it runs, possibly changes
  the file system, and exits with a return code and its two captured streams.
\<close>

datatype proc = NotFound | Exited int string string filesys

text \<open>
  The environment: \<^verbatim>\<open>platform.system()\<close>, \<^verbatim>\<open>os.sep\<close>, \<^verbatim>\<open>shutil.which\<close>, the behaviour of
  every external command on a file system, and the time stamp and mode a newly written
  file receives.
\<close>

record env =
  platform_system :: string
  sep :: string
  which :: "string \<Rightarrow> string option"
  spawn :: "string list \<Rightarrow> filesys \<Rightarrow> proc"
  clock :: nat
  create_mode :: nat

text \<open>
  Every line the script prints is recorded with the helper that printed it and the text's
  template with its arguments (the escape codes and the rendering of numbers are left out).
\<close>

datatype level = INFO | SUCCESS | WARNING | ERROR | PLAIN

datatype message =
    Starting
  | Wrong_directory
  | Rust_not_installed
  | Running "string list"
  | Command_failed int "string list"
  | Captured string
  | Installing_target string
  | Building_for string
  | Cross_unsupported
  | Use_workflow
  | Skipping_build
  | Stripping string
  | Copied string
  | Binary_not_found path
  | Creating_checksums
  | Build_completed
  | Release_artifacts
  | Size_of string nat
  | Checksums_heading
  | Ready

text \<open>
  The world: the file system, the command line of every process the script has tried to
  start (in order), and what it has printed.
\<close>

record world =
  files :: filesys
  spawned :: "string list list"
  printed :: "(level \<times> message) list"

definition say :: "level \<Rightarrow> message \<Rightarrow> world \<Rightarrow> world" where
  "say l m w = w\<lparr>printed := printed w @ [(l, m)]\<rparr>"

definition print_status :: "message \<Rightarrow> world \<Rightarrow> world" where
  "print_status m w = say INFO m w"

definition print_success :: "message \<Rightarrow> world \<Rightarrow> world" where
  "print_success m w = say SUCCESS m w"

definition print_warning :: "message \<Rightarrow> world \<Rightarrow> world" where
  "print_warning m w = say WARNING m w"

definition print_error :: "message \<Rightarrow> world \<Rightarrow> world" where
  "print_error m w = say ERROR m w"

subsection \<open>Running commands\<close>

datatype completed = CompletedProcess (returncode: int) (stdout: string) (stderr: string)

text \<open>
  \<^verbatim>\<open>subprocess.run(cmd, check=check, capture_output=True, text=True)\<close>: a missing executable
  raises \<open>FileNotFoundError\<close>; with \<open>check\<close>, a non-zero return code raises
  \<open>CalledProcessError\<close>.
\<close>

definition subprocess_run ::
  "env \<Rightarrow> string list \<Rightarrow> bool \<Rightarrow> world \<Rightarrow> (exn + completed) \<times> world" where
  "subprocess_run e cmd check w =
     (let w1 = w\<lparr>spawned := spawned w @ [cmd]\<rparr> in
      case spawn e cmd (files w) of
        NotFound \<Rightarrow> (Inl FileNotFoundError, w1)
      | Exited rc so se fsys \<Rightarrow>
          (let w2 = w1\<lparr>files := fsys\<rparr> in
           if check \<and> rc \<noteq> 0 then (Inl (CalledProcessError rc cmd so se), w2)
           else (Inr (CompletedProcess rc so se), w2)))"

text \<open>\<^verbatim>\<open>run_command\<close>: reports and re-raises \<open>CalledProcessError\<close>; anything else passes through.\<close>

definition run_command ::
  "env \<Rightarrow> string list \<Rightarrow> bool \<Rightarrow> world \<Rightarrow> (exn + completed) \<times> world" where
  "run_command e cmd check w =
     (case subprocess_run e cmd check (print_status (Running cmd) w) of
        (Inr result, w1) \<Rightarrow>
          (Inr result, if stdout result \<noteq> [] then say PLAIN (Captured (stdout result)) w1 else w1)
      | (Inl (CalledProcessError rc c so se), w1) \<Rightarrow>
          (let w2 = print_error (Command_failed rc c) w1 in
           (Inl (CalledProcessError rc c so se),
            if se \<noteq> [] then say PLAIN (Captured se) w2 else w2))
      | (Inl x, w1) \<Rightarrow> (Inl x, w1))"

subsection \<open>The toolchain\<close>

text \<open>The handler of \<^verbatim>\<open>check_rust_installed\<close>: \<^verbatim>\<open>except (CalledProcessError, FileNotFoundError)\<close>.\<close>

fun rust_missing :: "exn \<Rightarrow> world \<Rightarrow> (exn + bool) \<times> world" where
  "rust_missing (CalledProcessError rc c so se) w = (Inr False, print_error Rust_not_installed w)"
| "rust_missing FileNotFoundError w = (Inr False, print_error Rust_not_installed w)"
| "rust_missing x w = (Inl x, w)"

definition check_rust_installed :: "env \<Rightarrow> world \<Rightarrow> (exn + bool) \<times> world" where
  "check_rust_installed e w =
     (case run_command e [''rustc'', ''--version''] True w of
        (Inl x, w1) \<Rightarrow> rust_missing x w1
      | (Inr r1, w1) \<Rightarrow>
          (case run_command e [''cargo'', ''--version''] True w1 of
             (Inl x, w2) \<Rightarrow> rust_missing x w2
           | (Inr r2, w2) \<Rightarrow> (Inr True, w2)))"

text \<open>The list that \<^verbatim>\<open>install_targets\<close>, \<^verbatim>\<open>copy_binaries\<close> and \<^verbatim>\<open>main\<close> each write out.\<close>

definition targets :: "string list" where
  "targets = [''x86_64-unknown-linux-gnu'', ''aarch64-unknown-linux-gnu'']"

fun install_loop :: "env \<Rightarrow> string list \<Rightarrow> world \<Rightarrow> (exn + unit) \<times> world" where
  "install_loop e [] w = (Inr (), w)"
| "install_loop e (t # ts) w =
     (case run_command e [''rustup'', ''target'', ''add'', t] True
             (print_status (Installing_target t) w) of
        (Inl x, w1) \<Rightarrow> (Inl x, w1)
      | (Inr r, w1) \<Rightarrow> install_loop e ts w1)"

definition install_targets :: "env \<Rightarrow> world \<Rightarrow> (exn + unit) \<times> world" where
  "install_targets e w = install_loop e targets w"

subsection \<open>Building one target\<close>

definition binary_path :: "string \<Rightarrow> path" where
  "binary_path target = [''target'', target, ''release'', ''rbx-studio-mcp'']"

definition build_cmd :: "string \<Rightarrow> string list" where
  "build_cmd target = [''cargo'', ''build'', ''--release'', ''--target'', target]"

text \<open>The condition of the skip: \<^verbatim>\<open>host_os == 'windows' and target_os == 'linux'\<close>.\<close>

definition skipped :: "env \<Rightarrow> string \<Rightarrow> bool" where
  "skipped e tos = (lower (platform_system e) = ''windows'' \<and> tos = ''linux'')"

text \<open>\<^verbatim>\<open>["strip", str(binary_path)]\<close>: the path is rendered with the separator of the host.\<close>

definition strip_cmd :: "env \<Rightarrow> string \<Rightarrow> string list" where
  "strip_cmd e target = [''strip'', join (sep e) (binary_path target)]"

text \<open>The last lines of \<^verbatim>\<open>build_target\<close>, reached after a successful build.\<close>

definition strip_binary :: "env \<Rightarrow> string \<Rightarrow> world \<Rightarrow> (exn + unit) \<times> world" where
  "strip_binary e target w =
     (if which e ''strip'' \<noteq> None \<and> path_exists (files w) (binary_path target) then
        (case run_command e (strip_cmd e target) True
                (print_status (Stripping target) w) of
           (Inl x, w1) \<Rightarrow> (Inl x, w1)
         | (Inr r, w1) \<Rightarrow> (Inr (), w1))
      else (Inr (), w))"

definition build_target :: "env \<Rightarrow> string \<Rightarrow> world \<Rightarrow> (exn + unit) \<times> world" where
  "build_target e target w =
     (let w0 = print_status (Building_for target) w in
      case target_os target of
        Inl x \<Rightarrow> (Inl x, w0)
      | Inr tos \<Rightarrow>
          (if skipped e tos then
             (Inr (), print_status Skipping_build
                        (print_warning Use_workflow (print_warning Cross_unsupported w0)))
           else
             (case run_command e (build_cmd target) True w0 of
                (Inl x, w1) \<Rightarrow> (Inl x, w1)
              | (Inr r, w1) \<Rightarrow> strip_binary e target w1)))"

fun build_loop :: "env \<Rightarrow> string list \<Rightarrow> world \<Rightarrow> (exn + unit) \<times> world" where
  "build_loop e [] w = (Inr (), w)"
| "build_loop e (t # ts) w =
     (case build_target e t w of
        (Inl x, w1) \<Rightarrow> (Inl x, w1)
      | (Inr u, w1) \<Rightarrow> build_loop e ts w1)"

subsection \<open>Collecting the binaries\<close>

definition release_dir :: path where
  "release_dir = [''release'']"

definition artifact :: "string \<Rightarrow> path" where
  "artifact target = release_dir @ [''rbx-studio-mcp-'' @ target]"

text \<open>The body of the loop of \<^verbatim>\<open>copy_binaries\<close> for a source that exists; 493 is \<^verbatim>\<open>0o755\<close>.\<close>

definition copy_one :: "env \<Rightarrow> string \<Rightarrow> filesys \<Rightarrow> exn + filesys" where
  "copy_one e target fsys =
     (case copy2 (binary_path target) (artifact target) fsys of
        Inl x \<Rightarrow> Inl x
      | Inr f1 \<Rightarrow>
          (if platform_system e \<noteq> ''Windows'' then chmod (artifact target) 493 f1 else Inr f1))"

fun copy_loop :: "env \<Rightarrow> string list \<Rightarrow> world \<Rightarrow> (exn + unit) \<times> world" where
  "copy_loop e [] w = (Inr (), w)"
| "copy_loop e (t # ts) w =
     (if path_exists (files w) (binary_path t) then
        (case copy_one e t (files w) of
           Inl x \<Rightarrow> (Inl x, w)
         | Inr f1 \<Rightarrow> copy_loop e ts (print_success (Copied t) (w\<lparr>files := f1\<rparr>)))
      else copy_loop e ts (print_error (Binary_not_found (binary_path t)) w))"

definition copy_binaries :: "env \<Rightarrow> world \<Rightarrow> (exn + unit) \<times> world" where
  "copy_binaries e w =
     (case mkdir_exist_ok release_dir (files w) of
        Inl x \<Rightarrow> (Inl x, w)
      | Inr f1 \<Rightarrow> copy_loop e targets (w\<lparr>files := f1\<rparr>))"

subsection \<open>The checksum manifest\<close>

definition checksum_file :: path where
  "checksum_file = release_dir @ [''checksums.txt'']"

text \<open>
  \<^verbatim>\<open>open(p, "w")\<close>: the directory of the file must exist and the path must not be a directory;
  an existing file must be writable, is truncated and keeps its mode; a new one is created.
\<close>

definition open_w :: "env \<Rightarrow> path \<Rightarrow> filesys \<Rightarrow> exn + filesys" where
  "open_w e p fsys =
     (if \<not> path_exists fsys (butlast p) then Inl FileNotFoundError
      else if \<not> is_dir fsys (butlast p) then Inl NotADirectoryError
      else
        (case lookup fsys p of
           None \<Rightarrow> Inr (store p (File [] (create_mode e) (clock e)) fsys)
         | Some Dir \<Rightarrow> Inl IsADirectoryError
         | Some (File c m t) \<Rightarrow>
             if writable m then Inr (store p (File [] m (clock e)) fsys)
             else Inl PermissionError))"

text \<open>
  Leaving the \<^verbatim>\<open>with\<close> block closes the file, on an exception too: what was written reaches
  the file that was opened. If a process has meanwhile replaced that file by something
  else, the text goes to a file that no path names any more.
\<close>

definition close_w :: "env \<Rightarrow> path \<Rightarrow> string \<Rightarrow> filesys \<Rightarrow> filesys" where
  "close_w e p text fsys =
     (case lookup fsys p of
        Some (File c m t) \<Rightarrow> store p (File text m (clock e)) fsys
      | _ \<Rightarrow> fsys)"

text \<open>The two hashing commands, and the text each branch writes when the return code is 0.\<close>

definition hash_cmd :: "env \<Rightarrow> path \<Rightarrow> string list" where
  "hash_cmd e binary =
     (if platform_system e = ''Windows'' then
        [''powershell'', ''-Command'',
         ''Get-FileHash '' @ [CHR 0x27] @ join (sep e) binary @ [CHR 0x27] @
         '' -Algorithm SHA256 | Select-Object -ExpandProperty Hash'']
      else [''sha256sum'', join (sep e) binary])"

definition hash_line :: "env \<Rightarrow> path \<Rightarrow> completed \<Rightarrow> string" where
  "hash_line e binary result =
     (if platform_system e = ''Windows'' then
        strip (stdout result) @ ''  '' @ last binary @ [CHR 0x0A]
      else stdout result)"

text \<open>
  The loop of \<^verbatim>\<open>create_checksums\<close> over the globbed paths; \<open>text\<close> is what has been written
  to the open manifest so far. \<^verbatim>\<open>subprocess.run\<close> is called without \<open>check\<close> here.
\<close>

fun checksum_loop ::
  "env \<Rightarrow> path list \<Rightarrow> string \<Rightarrow> world \<Rightarrow> (exn + unit) \<times> string \<times> world" where
  "checksum_loop e [] text w = (Inr (), text, w)"
| "checksum_loop e (b # bs) text w =
     (if is_file (files w) b then
        (case subprocess_run e (hash_cmd e b) False w of
           (Inl x, w1) \<Rightarrow> (Inl x, text, w1)
         | (Inr result, w1) \<Rightarrow>
             checksum_loop e bs
               (if returncode result = 0 then text @ hash_line e b result else text) w1)
      else checksum_loop e bs text w)"

definition create_checksums :: "env \<Rightarrow> world \<Rightarrow> (exn + unit) \<times> world" where
  "create_checksums e w =
     (let w0 = print_status Creating_checksums w in
      case open_w e checksum_file (files w0) of
        Inl x \<Rightarrow> (Inl x, w0)
      | Inr f1 \<Rightarrow>
          (case checksum_loop e (glob f1 release_dir ''rbx-studio-mcp-'') [] (w0\<lparr>files := f1\<rparr>) of
             (r, text, w1) \<Rightarrow> (r, w1\<lparr>files := close_w e checksum_file text (files w1)\<rparr>)))"

subsection \<open>The report\<close>

fun size_loop :: "string list \<Rightarrow> world \<Rightarrow> world" where
  "size_loop [] w = w"
| "size_loop (n # ns) w =
     (case lookup (files w) (release_dir @ [n]) of
        Some (File c m t) \<Rightarrow> size_loop ns (say PLAIN (Size_of n (length c)) w)
      | _ \<Rightarrow> size_loop ns w)"

definition display_results :: "env \<Rightarrow> world \<Rightarrow> (exn + unit) \<times> world" where
  "display_results e w =
     (let w1 = print_status Release_artifacts (print_success Build_completed w) in
      if \<not> path_exists (files w1) release_dir then (Inl FileNotFoundError, w1)
      else if \<not> is_dir (files w1) release_dir then (Inl NotADirectoryError, w1)
      else
        (let w2 = print_status Checksums_heading (size_loop (listdir (files w1) release_dir) w1) in
         case lookup (files w2) checksum_file of
           None \<Rightarrow> (Inr (), w2)
         | Some Dir \<Rightarrow> (Inl IsADirectoryError, w2)
         | Some (File c m t) \<Rightarrow>
             if readable m then (Inr (), say PLAIN (Captured c) w2)
             else (Inl PermissionError, w2)))"

subsection \<open>The orchestrator\<close>

definition main :: "env \<Rightarrow> world \<Rightarrow> (exn + unit) \<times> world" where
  "main e w =
     (let w0 = print_status Starting w in
      if \<not> path_exists (files w0) [''Cargo.toml''] then
        (Inl (SystemExit 1), print_error Wrong_directory w0)
      else
        (case check_rust_installed e w0 of
           (Inl x, w1) \<Rightarrow> (Inl x, w1)
         | (Inr False, w1) \<Rightarrow> (Inl (SystemExit 1), w1)
         | (Inr True, w1) \<Rightarrow>
             (case install_targets e w1 of
                (Inl x, w2) \<Rightarrow> (Inl x, w2)
              | (Inr u2, w2) \<Rightarrow>
                  (case build_loop e targets w2 of
                     (Inl x, w3) \<Rightarrow> (Inl x, w3)
                   | (Inr u3, w3) \<Rightarrow>
                       (case copy_binaries e w3 of
                          (Inl x, w4) \<Rightarrow> (Inl x, w4)
                        | (Inr u4, w4) \<Rightarrow>
                            (case create_checksums e w4 of
                               (Inl x, w5) \<Rightarrow> (Inl x, w5)
                             | (Inr u5, w5) \<Rightarrow>
                                 (case display_results e w5 of
                                    (Inl x, w6) \<Rightarrow> (Inl x, w6)
                                  | (Inr u6, w6) \<Rightarrow> (Inr (), print_success Ready w6))))))))"

text \<open>
  The exit code of the interpreter for \<^verbatim>\<open>if __name__ == "__main__": main()\<close>: 0 when \<open>main\<close>
  returns, the argument of \<^verbatim>\<open>sys.exit\<close>, and 1 for any other exception that nothing caught.
\<close>

fun exit_code :: "exn + unit \<Rightarrow> int" where
  "exit_code (Inr u) = 0"
| "exit_code (Inl (SystemExit n)) = n"
| "exit_code (Inl x) = 1"

definition script :: "env \<Rightarrow> world \<Rightarrow> int \<times> world" where
  "script e w = (case main e w of (r, w') \<Rightarrow> (exit_code r, w'))"

subsection \<open>Outcomes of processes, and hosts to run the script on\<close>

definition failed :: "proc \<Rightarrow> bool" where
  "failed p = (case p of NotFound \<Rightarrow> True | Exited rc so se f \<Rightarrow> rc \<noteq> 0)"

definition after :: "proc \<Rightarrow> filesys \<Rightarrow> filesys" where
  "after p fsys = (case p of NotFound \<Rightarrow> fsys | Exited rc so se f \<Rightarrow> f)"


text \<open>
  A host for examples: the executables named in \<open>missing\<close> are not installed, the command
  lines in \<open>failing\<close> exit with code 101, a build leaves the binary of its target, and the
  hashing commands print a digest.
\<close>

definition demo_spawn :: "string list \<Rightarrow> string list list \<Rightarrow> string list \<Rightarrow> filesys \<Rightarrow> proc" where
  "demo_spawn missing failing cmd fsys =
     (if cmd = [] \<or> hd cmd \<in> set missing then NotFound
      else if cmd \<in> set failing then Exited 101 [] ''error'' fsys
      else if take 2 cmd = [''cargo'', ''build''] \<and> length cmd = 5 then
        Exited 0 [] ''Finished'' (store (binary_path (cmd ! 4)) (File ''ELF'' 420 5) fsys)
      else if hd cmd = ''sha256sum'' \<and> length cmd = 2 then
        Exited 0 (''9f86d0  '' @ cmd ! 1 @ [CHR 0x0A]) [] fsys
      else if hd cmd = ''powershell'' then Exited 0 (''9F86D0'' @ [CHR 0x0D, CHR 0x0A]) [] fsys
      else if take 1 (tl cmd) = [''--version''] then Exited 0 ''1.80.0'' [] fsys
      else Exited 0 [] [] fsys)"

definition demo_host :: "string \<Rightarrow> string list \<Rightarrow> string list list \<Rightarrow> env" where
  "demo_host sys missing failing =
     \<lparr>platform_system = sys,
      sep = (if sys = ''Windows'' then [CHR 0x5C] else ''/''),
      which = (\<lambda>n. if n \<in> set missing then None else Some (''/usr/bin/'' @ n)),
      spawn = demo_spawn missing failing,
      clock = 9,
      create_mode = 420\<rparr>"

definition linux_host :: env where
  "linux_host = demo_host ''Linux'' [] []"


definition failing_build_host :: env where
  "failing_build_host = demo_host ''Linux'' [] [build_cmd ''x86_64-unknown-linux-gnu'']"

definition failing_strip_host :: env where
  "failing_strip_host =
     demo_host ''Linux'' [] [[''strip'', ''target/x86_64-unknown-linux-gnu/release/rbx-studio-mcp'']]"

text \<open>A fresh checkout, and one in which an earlier build has left a binary.\<close>

definition project :: world where
  "project = \<lparr>files = [([''Cargo.toml''], File ''[package]'' 420 1)], spawned = [], printed = []\<rparr>"










text \<open>The file system of the fresh checkout after the first build on an example host.\<close>

definition built_once :: filesys where
  "built_once = store (binary_path ''x86_64-unknown-linux-gnu'') (File ''ELF'' 420 5) (files project)"

section \<open>Properties\<close>

subsection \<open>Splitting\<close>

lemma split_on_not_Nil: "split_on c s \<noteq> []"
  by (induction s) (auto split: list.splits)

lemma length_split_on: "length (split_on c s) = Suc (count_list s c)"
proof (induction s)
  case Nil
  show ?case by simp
next
  case (Cons x xs)
  then show ?case
    by (cases "split_on c xs") auto
qed

lemma count_list_pos_iff: "0 < count_list s c \<longleftrightarrow> c \<in> set s"
  by (induction s) auto

subsection \<open>The OS component of a target triple\<close>

text \<open>
  C2. The claim says the derivation never fails and yields \<open>unknown\<close> for every triple with
  fewer than three fields, naming \<open>a-b\<close>. The guard of the source only asks whether the
  triple contains a dash at all, so a triple with exactly one dash passes the guard and
  the index 2 is out of range: on \<open>a-b\<close> the statement raises \<open>IndexError\<close>.
\<close>

theorem target_os_one_dash_raises: "target_os ''a-b'' = Inl IndexError"
  by (simp add: target_os_def index_def)

subsection \<open>Printing and running commands\<close>

lemmas print_defs = print_status_def print_success_def print_warning_def print_error_def

lemma say_simps [simp]:
  "files (say l m w) = files w"
  "spawned (say l m w) = spawned w"
  "printed (say l m w) = printed w @ [(l, m)]"
  by (simp_all add: say_def)

text \<open>A command that exits non-zero under \<open>check\<close>: the exception, one more process, its files.\<close>

lemma run_command_nonzero:
  assumes "spawn e cmd (files w) = Exited rc so se f" and "rc \<noteq> 0"
  shows "\<exists>w'. run_command e cmd True w = (Inl (CalledProcessError rc cmd so se), w') \<and>
              spawned w' = spawned w @ [cmd] \<and> files w' = f"
  using assms by (simp add: run_command_def subprocess_run_def print_defs Let_def)

lemma run_command_zero:
  assumes "spawn e cmd (files w) = Exited 0 so se f"
  shows "\<exists>w'. run_command e cmd True w = (Inr (CompletedProcess 0 so se), w') \<and>
              spawned w' = spawned w @ [cmd] \<and> files w' = f"
  using assms by (simp add: run_command_def subprocess_run_def print_defs Let_def)

subsection \<open>The build loop and its place in \<open>main\<close>\<close>

lemma target_os_targets: "t \<in> set targets \<Longrightarrow> target_os t = Inr ''linux''"
  by (auto simp add: targets_def target_os_def index_def)

lemma build_loop_raises:
  assumes "build_loop e ts1 w = (Inr (), w1)" and "build_target e t w1 = (Inl x, w2)"
  shows "build_loop e (ts1 @ t # ts2) w = (Inl x, w2)"
  using assms
proof (induction ts1 arbitrary: w)
  case Nil
  then show ?case by simp
next
  case (Cons a ts1)
  then show ?case
    by (auto split: prod.splits sum.splits)
qed

lemma main_build_raises:
  assumes "path_exists (files w) [''Cargo.toml'']"
      and "check_rust_installed e (print_status Starting w) = (Inr True, w1)"
      and "install_targets e w1 = (Inr (), w2)"
      and "build_loop e targets w2 = (Inl x, w3)"
  shows "main e w = (Inl x, w3)"
  using assms by (simp add: main_def Let_def print_defs)


lemma build_target_build_fails:
  assumes "target_os t = Inr tos" and "\<not> skipped e tos"
      and "spawn e (build_cmd t) (files w) = Exited rc so se f" and "rc \<noteq> 0"
  shows "\<exists>w'. build_target e t w = (Inl (CalledProcessError rc (build_cmd t) so se), w') \<and>
              spawned w' = spawned w @ [build_cmd t] \<and> files w' = f"
proof -
  from assms(3,4) obtain w' where
    "run_command e (build_cmd t) True (print_status (Building_for t) w) =
       (Inl (CalledProcessError rc (build_cmd t) so se), w')"
    "spawned w' = spawned w @ [build_cmd t]" "files w' = f"
    using run_command_nonzero [of e "build_cmd t" "print_status (Building_for t) w" rc so se f]
    by (auto simp add: print_defs)
  with assms(1,2) show ?thesis
    by (simp add: build_target_def Let_def)
qed

lemma build_target_strips:
  assumes "target_os t = Inr tos" and "\<not> skipped e tos"
      and "spawn e (build_cmd t) (files w) = Exited 0 so se f"
      and "which e ''strip'' \<noteq> None" and "path_exists f (binary_path t)"
      and "spawn e (strip_cmd e t) f = Exited rc so' se' f'"
  shows "\<exists>w'. build_target e t w =
                 (if rc \<noteq> 0 then Inl (CalledProcessError rc (strip_cmd e t) so' se') else Inr (), w') \<and>
              spawned w' = spawned w @ [build_cmd t, strip_cmd e t] \<and> files w' = f'"
proof -
  from assms(3) obtain w1 where w1:
    "run_command e (build_cmd t) True (print_status (Building_for t) w) =
       (Inr (CompletedProcess 0 so se), w1)"
    "spawned w1 = spawned w @ [build_cmd t]" "files w1 = f"
    using run_command_zero [of e "build_cmd t" "print_status (Building_for t) w" so se f]
    by (auto simp add: print_defs)
  show ?thesis
  proof (cases "rc = 0")
    case True
    with assms(6) w1 obtain w2 where w2:
      "run_command e (strip_cmd e t) True (print_status (Stripping t) w1) =
         (Inr (CompletedProcess 0 so' se'), w2)"
      "spawned w2 = spawned w1 @ [strip_cmd e t]" "files w2 = f'"
      using run_command_zero [of e "strip_cmd e t" "print_status (Stripping t) w1" so' se' f']
      by (auto simp add: print_defs)
    from assms(1,2,4,5) w1 w2 True show ?thesis
      by (simp add: build_target_def strip_binary_def Let_def)
  next
    case False
    with assms(6) w1 obtain w2 where w2:
      "run_command e (strip_cmd e t) True (print_status (Stripping t) w1) =
         (Inl (CalledProcessError rc (strip_cmd e t) so' se'), w2)"
      "spawned w2 = spawned w1 @ [strip_cmd e t]" "files w2 = f'"
      using run_command_nonzero [of e "strip_cmd e t" "print_status (Stripping t) w1" rc so' se' f']
      by (auto simp add: print_defs)
    from assms(1,2,4,5) w1 w2 False show ?thesis
      by (simp add: build_target_def strip_binary_def Let_def)
  qed
qed


subsection \<open>A failing build\<close>

text \<open>
  C1, as the code has it. The claim says that a target whose release build exits non-zero
  is set aside and the batch goes on to exit 0. \<open>run_command\<close> re-raises
  \<open>CalledProcessError\<close> and neither \<open>build_target\<close> nor \<open>main\<close> has a handler, so the
  failure of one build ends the run: when \<open>main\<close> has reached the build of a configured
  target \<open>t\<close> (in world \<open>w3\<close>) and the build command exits with \<open>rc \<noteq> 0\<close>, then \<open>main\<close> ends
  with that exception, the exit code is 1, the failing build is the last process started
  (no later target is built, nothing is hashed), and the file system is as that build left
  it (nothing is collected, no manifest is written).
\<close>

theorem build_failure_aborts:
  assumes marker: "path_exists (files w) [''Cargo.toml'']"
      and rust: "check_rust_installed e (print_status Starting w) = (Inr True, w1)"
      and inst: "install_targets e w1 = (Inr (), w2)"
      and before: "targets = ts1 @ t # ts2" "build_loop e ts1 w2 = (Inr (), w3)"
      and host: "\<not> skipped e ''linux''"
      and fail: "spawn e (build_cmd t) (files w3) = Exited rc so se f" "rc \<noteq> 0"
  shows "\<exists>w'. main e w = (Inl (CalledProcessError rc (build_cmd t) so se), w') \<and>
              script e w = (1, w') \<and>
              spawned w' = spawned w3 @ [build_cmd t] \<and>
              files w' = f"
proof -
  have "t \<in> set (ts1 @ t # ts2)" by simp
  then have "t \<in> set targets" by (simp only: before(1))
  then have os: "target_os t = Inr ''linux''" by (rule target_os_targets)
  from build_target_build_fails [OF os host fail] obtain w' where w':
    "build_target e t w3 = (Inl (CalledProcessError rc (build_cmd t) so se), w')"
    "spawned w' = spawned w3 @ [build_cmd t]" "files w' = f"
    by blast
  have "build_loop e (ts1 @ t # ts2) w2 = (Inl (CalledProcessError rc (build_cmd t) so se), w')"
    by (rule build_loop_raises [OF before(2) w'(1)])
  then have "build_loop e targets w2 = (Inl (CalledProcessError rc (build_cmd t) so se), w')"
    by (simp only: before(1))
  from main_build_raises [OF marker rust inst this] w'(2,3) show ?thesis
    by (simp add: script_def)
qed

text \<open>The prelude of the run on the example hosts whose toolchain is installed.\<close>

lemma failing_build_prelude:
  defines "w1 \<equiv> snd (check_rust_installed failing_build_host (print_status Starting project))"
  defines "w2 \<equiv> snd (install_targets failing_build_host w1)"
  shows "check_rust_installed failing_build_host (print_status Starting project) = (Inr True, w1)"
    and "install_targets failing_build_host w1 = (Inr (), w2)"
    and "files w2 = files project"
    and "spawned w2 = [[''rustc'', ''--version''], [''cargo'', ''--version''],
           [''rustup'', ''target'', ''add'', ''x86_64-unknown-linux-gnu''],
           [''rustup'', ''target'', ''add'', ''aarch64-unknown-linux-gnu'']]"
proof -
  have "fst (check_rust_installed failing_build_host (print_status Starting project)) = Inr True"
    by code_simp
  then show "check_rust_installed failing_build_host (print_status Starting project) = (Inr True, w1)"
    by (simp add: w1_def prod_eq_iff)
  have "fst (install_targets failing_build_host w1) = Inr ()"
    unfolding w1_def by code_simp
  then show "install_targets failing_build_host w1 = (Inr (), w2)"
    by (simp add: w2_def prod_eq_iff)
  show "files w2 = files project"
    unfolding w1_def w2_def by code_simp
  show "spawned w2 = [[''rustc'', ''--version''], [''cargo'', ''--version''],
           [''rustup'', ''target'', ''add'', ''x86_64-unknown-linux-gnu''],
           [''rustup'', ''target'', ''add'', ''aarch64-unknown-linux-gnu'']]"
    unfolding w1_def w2_def by code_simp
qed

lemma failing_build_run:
  "\<exists>w'. script failing_build_host project = (1, w') \<and>
        spawned w' =
          [[''rustc'', ''--version''], [''cargo'', ''--version''],
           [''rustup'', ''target'', ''add'', ''x86_64-unknown-linux-gnu''],
           [''rustup'', ''target'', ''add'', ''aarch64-unknown-linux-gnu''],
           build_cmd ''x86_64-unknown-linux-gnu''] \<and>
        files w' = files project"
proof -
  define w1 where "w1 = snd (check_rust_installed failing_build_host (print_status Starting project))"
  define w2 where "w2 = snd (install_targets failing_build_host w1)"
  note pre = failing_build_prelude [folded w1_def w2_def]
  have marker: "path_exists (files project) [''Cargo.toml'']"
    by code_simp
  have os: "target_os ''x86_64-unknown-linux-gnu'' = Inr ''linux''"
    by (simp add: target_os_targets targets_def)
  have host: "\<not> skipped failing_build_host ''linux''"
    by code_simp
  have fail: "spawn failing_build_host (build_cmd ''x86_64-unknown-linux-gnu'') (files w2) =
                Exited 101 [] ''error'' (files w2)"
    by (simp add: failing_build_host_def demo_host_def demo_spawn_def build_cmd_def)
  from build_target_build_fails [OF os host fail] obtain w' where w':
    "build_target failing_build_host ''x86_64-unknown-linux-gnu'' w2 =
       (Inl (CalledProcessError 101 (build_cmd ''x86_64-unknown-linux-gnu'') [] ''error''), w')"
    "spawned w' = spawned w2 @ [build_cmd ''x86_64-unknown-linux-gnu'']" "files w' = files w2"
    by auto
  then have "build_loop failing_build_host targets w2 =
       (Inl (CalledProcessError 101 (build_cmd ''x86_64-unknown-linux-gnu'') [] ''error''), w')"
    by (simp add: targets_def)
  from main_build_raises [OF marker pre(1) pre(2) this] w'(2,3) pre(3,4) show ?thesis
    by (simp add: script_def)
qed

theorem build_failure_aborts_witness:
  "\<exists>w'. main failing_build_host project =
          (Inl (CalledProcessError 101 (build_cmd ''x86_64-unknown-linux-gnu'') [] ''error''), w') \<and>
        script failing_build_host project = (1, w') \<and>
        spawned w' =
          [[''rustc'', ''--version''], [''cargo'', ''--version''],
           [''rustup'', ''target'', ''add'', ''x86_64-unknown-linux-gnu''],
           [''rustup'', ''target'', ''add'', ''aarch64-unknown-linux-gnu''],
           build_cmd ''x86_64-unknown-linux-gnu''] \<and>
        files w' = files project"
proof -
  define w1 where "w1 = snd (check_rust_installed failing_build_host (print_status Starting project))"
  define w2 where "w2 = snd (install_targets failing_build_host w1)"
  note pre = failing_build_prelude [folded w1_def w2_def]
  have marker: "path_exists (files project) [''Cargo.toml'']"
    by code_simp
  have split: "targets = [] @ ''x86_64-unknown-linux-gnu'' # [''aarch64-unknown-linux-gnu'']"
    by (simp add: targets_def)
  have loop: "build_loop failing_build_host [] w2 = (Inr (), w2)"
    by simp
  have host: "\<not> skipped failing_build_host ''linux''"
    by code_simp
  have fail: "spawn failing_build_host (build_cmd ''x86_64-unknown-linux-gnu'') (files w2) =
                Exited 101 [] ''error'' (files w2)"
    by (simp add: failing_build_host_def demo_host_def demo_spawn_def build_cmd_def)
  have rc: "(101::int) \<noteq> 0"
    by simp
  from build_failure_aborts [OF marker pre(1) pre(2) split loop host fail rc] pre(3,4)
  show ?thesis
    by simp
qed

text \<open>
  The scenario of the claim: the first build fails, the second would succeed. The exit code
  is 1, the second target is never built, and the output directory is not even created.
\<close>

theorem build_failure_continues_counterexample:
  "fst (script failing_build_host project) = 1 \<and>
   build_cmd ''aarch64-unknown-linux-gnu'' \<notin> set (spawned (snd (script failing_build_host project))) \<and>
   \<not> path_exists (files (snd (script failing_build_host project))) release_dir"
proof -
  from failing_build_run obtain w' where w':
    "script failing_build_host project = (1, w')"
    "spawned w' =
          [[''rustc'', ''--version''], [''cargo'', ''--version''],
           [''rustup'', ''target'', ''add'', ''x86_64-unknown-linux-gnu''],
           [''rustup'', ''target'', ''add'', ''aarch64-unknown-linux-gnu''],
           build_cmd ''x86_64-unknown-linux-gnu'']"
    "files w' = files project"
    by blast
  have "\<not> path_exists (files project) release_dir"
    by code_simp
  with w' show ?thesis
    by (simp add: build_cmd_def)
qed

subsection \<open>A failing strip\<close>

text \<open>
  C3, as the code has it. The first half of the claim holds: after a successful build, when
  \<open>strip\<close> is on the search path and the binary exists, \<open>strip\<close> is started on it, right
  after the build. The second half does not: \<open>strip\<close> runs through \<open>run_command\<close> with
  \<open>check\<close>, so a non-zero exit raises \<open>CalledProcessError\<close> and ends the run like a failing
  build does: the exit code is 1, \<open>strip\<close> is the last process started (the remaining
  targets are not built, nothing is hashed) and the file system is as \<open>strip\<close> left it
  (nothing is collected, no manifest is written).
\<close>

theorem strip_failure_aborts:
  assumes marker: "path_exists (files w) [''Cargo.toml'']"
      and rust: "check_rust_installed e (print_status Starting w) = (Inr True, w1)"
      and inst: "install_targets e w1 = (Inr (), w2)"
      and before: "targets = ts1 @ t # ts2" "build_loop e ts1 w2 = (Inr (), w3)"
      and host: "\<not> skipped e ''linux''"
      and built: "spawn e (build_cmd t) (files w3) = Exited 0 so se f"
      and tool: "which e ''strip'' \<noteq> None"
      and there: "path_exists f (binary_path t)"
      and strip: "spawn e (strip_cmd e t) f = Exited rc so' se' f'"
  shows "spawned (snd (build_target e t w3)) = spawned w3 @ [build_cmd t, strip_cmd e t] \<and>
         (rc \<noteq> 0 \<longrightarrow>
            (\<exists>w'. main e w = (Inl (CalledProcessError rc (strip_cmd e t) so' se'), w') \<and>
                   script e w = (1, w') \<and>
                   spawned w' = spawned w3 @ [build_cmd t, strip_cmd e t] \<and>
                   files w' = f'))"
proof -
  have "t \<in> set (ts1 @ t # ts2)" by simp
  then have "t \<in> set targets" by (simp only: before(1))
  then have os: "target_os t = Inr ''linux''" by (rule target_os_targets)
  from build_target_strips [OF os host built tool there strip] obtain w' where w':
    "build_target e t w3 =
       (if rc \<noteq> 0 then Inl (CalledProcessError rc (strip_cmd e t) so' se') else Inr (), w')"
    "spawned w' = spawned w3 @ [build_cmd t, strip_cmd e t]" "files w' = f'"
    by blast
  have invoked: "spawned (snd (build_target e t w3)) = spawned w3 @ [build_cmd t, strip_cmd e t]"
    using w' by simp
  have aborts: "\<exists>w'. main e w = (Inl (CalledProcessError rc (strip_cmd e t) so' se'), w') \<and>
                   script e w = (1, w') \<and>
                   spawned w' = spawned w3 @ [build_cmd t, strip_cmd e t] \<and>
                   files w' = f'" if "rc \<noteq> 0"
  proof -
    from w'(1) that
    have "build_target e t w3 = (Inl (CalledProcessError rc (strip_cmd e t) so' se'), w')"
      by simp
    then have "build_loop e (ts1 @ t # ts2) w2 = (Inl (CalledProcessError rc (strip_cmd e t) so' se'), w')"
      by (rule build_loop_raises [OF before(2)])
    then have "build_loop e targets w2 = (Inl (CalledProcessError rc (strip_cmd e t) so' se'), w')"
      by (simp only: before(1))
    from main_build_raises [OF marker rust inst this] w'(2,3) show ?thesis
      by (simp add: script_def)
  qed
  from invoked aborts show ?thesis by blast
qed

lemma failing_strip_prelude:
  defines "w1 \<equiv> snd (check_rust_installed failing_strip_host (print_status Starting project))"
  defines "w2 \<equiv> snd (install_targets failing_strip_host w1)"
  shows "check_rust_installed failing_strip_host (print_status Starting project) = (Inr True, w1)"
    and "install_targets failing_strip_host w1 = (Inr (), w2)"
    and "files w2 = files project"
    and "spawned w2 = [[''rustc'', ''--version''], [''cargo'', ''--version''],
           [''rustup'', ''target'', ''add'', ''x86_64-unknown-linux-gnu''],
           [''rustup'', ''target'', ''add'', ''aarch64-unknown-linux-gnu'']]"
proof -
  have "fst (check_rust_installed failing_strip_host (print_status Starting project)) = Inr True"
    by code_simp
  then show "check_rust_installed failing_strip_host (print_status Starting project) = (Inr True, w1)"
    by (simp add: w1_def prod_eq_iff)
  have "fst (install_targets failing_strip_host w1) = Inr ()"
    unfolding w1_def by code_simp
  then show "install_targets failing_strip_host w1 = (Inr (), w2)"
    by (simp add: w2_def prod_eq_iff)
  show "files w2 = files project"
    unfolding w1_def w2_def by code_simp
  show "spawned w2 = [[''rustc'', ''--version''], [''cargo'', ''--version''],
           [''rustup'', ''target'', ''add'', ''x86_64-unknown-linux-gnu''],
           [''rustup'', ''target'', ''add'', ''aarch64-unknown-linux-gnu'']]"
    unfolding w1_def w2_def by code_simp
qed

lemma failing_strip_facts:
  "spawn failing_strip_host (build_cmd ''x86_64-unknown-linux-gnu'') (files project) =
     Exited 0 [] ''Finished'' built_once"
  "which failing_strip_host ''strip'' \<noteq> None"
  "path_exists built_once (binary_path ''x86_64-unknown-linux-gnu'')"
  "spawn failing_strip_host (strip_cmd failing_strip_host ''x86_64-unknown-linux-gnu'') built_once =
     Exited 101 [] ''error'' built_once"
  "\<not> skipped failing_strip_host ''linux''"
  "\<not> path_exists built_once release_dir"
  by code_simp+


lemma failing_strip_run:
  "\<exists>w'. script failing_strip_host project = (1, w') \<and>
        spawned w' =
          [[''rustc'', ''--version''], [''cargo'', ''--version''],
           [''rustup'', ''target'', ''add'', ''x86_64-unknown-linux-gnu''],
           [''rustup'', ''target'', ''add'', ''aarch64-unknown-linux-gnu''],
           build_cmd ''x86_64-unknown-linux-gnu'',
           strip_cmd failing_strip_host ''x86_64-unknown-linux-gnu''] \<and>
        files w' = built_once"
proof -
  define w1 where "w1 = snd (check_rust_installed failing_strip_host (print_status Starting project))"
  define w2 where "w2 = snd (install_targets failing_strip_host w1)"
  note pre = failing_strip_prelude [folded w1_def w2_def]
  have marker: "path_exists (files project) [''Cargo.toml'']"
    by code_simp
  have os: "target_os ''x86_64-unknown-linux-gnu'' = Inr ''linux''"
    by (simp add: target_os_targets targets_def)
  have built: "spawn failing_strip_host (build_cmd ''x86_64-unknown-linux-gnu'') (files w2) =
                 Exited 0 [] ''Finished'' built_once"
    by (simp only: pre(3) failing_strip_facts(1))
  from build_target_strips [OF os failing_strip_facts(5) built failing_strip_facts(2,3,4)]
  obtain w' where w':
    "build_target failing_strip_host ''x86_64-unknown-linux-gnu'' w2 =
       (Inl (CalledProcessError 101 (strip_cmd failing_strip_host ''x86_64-unknown-linux-gnu'') [] ''error''), w')"
    "spawned w' = spawned w2 @ [build_cmd ''x86_64-unknown-linux-gnu'',
                                strip_cmd failing_strip_host ''x86_64-unknown-linux-gnu'']"
    "files w' = built_once"
    by auto
  then have "build_loop failing_strip_host targets w2 =
       (Inl (CalledProcessError 101 (strip_cmd failing_strip_host ''x86_64-unknown-linux-gnu'') [] ''error''), w')"
    by (simp add: targets_def)
  from main_build_raises [OF marker pre(1) pre(2) this] w'(2,3) pre(4) show ?thesis
    by (simp add: script_def)
qed

theorem strip_failure_aborts_witness:
  "\<exists>w'. main failing_strip_host project =
          (Inl (CalledProcessError 101 (strip_cmd failing_strip_host ''x86_64-unknown-linux-gnu'') [] ''error''), w') \<and>
        script failing_strip_host project = (1, w') \<and>
        spawned w' =
          [[''rustc'', ''--version''], [''cargo'', ''--version''],
           [''rustup'', ''target'', ''add'', ''x86_64-unknown-linux-gnu''],
           [''rustup'', ''target'', ''add'', ''aarch64-unknown-linux-gnu''],
           build_cmd ''x86_64-unknown-linux-gnu'',
           strip_cmd failing_strip_host ''x86_64-unknown-linux-gnu''] \<and>
        files w' = built_once"
proof -
  define w1 where "w1 = snd (check_rust_installed failing_strip_host (print_status Starting project))"
  define w2 where "w2 = snd (install_targets failing_strip_host w1)"
  note pre = failing_strip_prelude [folded w1_def w2_def]
  have marker: "path_exists (files project) [''Cargo.toml'']"
    by code_simp
  have split: "targets = [] @ ''x86_64-unknown-linux-gnu'' # [''aarch64-unknown-linux-gnu'']"
    by (simp add: targets_def)
  have loop: "build_loop failing_strip_host [] w2 = (Inr (), w2)"
    by simp
  have built: "spawn failing_strip_host (build_cmd ''x86_64-unknown-linux-gnu'') (files w2) =
                 Exited 0 [] ''Finished'' built_once"
    by (simp only: pre(3) failing_strip_facts(1))
  have rc: "(101::int) \<noteq> 0"
    by simp
  from strip_failure_aborts [OF marker pre(1) pre(2) split loop failing_strip_facts(5) built
         failing_strip_facts(2,3,4)] rc pre(4)
  show ?thesis
    by simp
qed

text \<open>
  \<open>strip\<close> fails on the first binary: the exit code is 1, the second target is never built
  and the output directory is not created.
\<close>

theorem strip_failure_continues_counterexample:
  "fst (script failing_strip_host project) = 1 \<and>
   build_cmd ''aarch64-unknown-linux-gnu'' \<notin> set (spawned (snd (script failing_strip_host project))) \<and>
   \<not> path_exists (files (snd (script failing_strip_host project))) release_dir"
proof -
  from failing_strip_run obtain w' where w':
    "script failing_strip_host project = (1, w')"
    "spawned w' =
          [[''rustc'', ''--version''], [''cargo'', ''--version''],
           [''rustup'', ''target'', ''add'', ''x86_64-unknown-linux-gnu''],
           [''rustup'', ''target'', ''add'', ''aarch64-unknown-linux-gnu''],
           build_cmd ''x86_64-unknown-linux-gnu'',
           strip_cmd failing_strip_host ''x86_64-unknown-linux-gnu'']"
    "files w' = built_once"
    by blast
  with failing_strip_facts(6) show ?thesis
    by (simp add: build_cmd_def strip_cmd_def)
qed

subsection \<open>Preconditions of the run\<close>

text \<open>
  C7. Without \<open>Cargo.toml\<close> in the working directory the script prints its banner and the
  error, and exits with code 1: no process is started and the file system is untouched.
\<close>

theorem main_without_marker:
  assumes "\<not> path_exists (files w) [''Cargo.toml'']"
  shows "fst (script e w) = 1 \<and>
         spawned (snd (script e w)) = spawned w \<and>
         files (snd (script e w)) = files w \<and>
         printed (snd (script e w)) = printed w @ [(INFO, Starting), (ERROR, Wrong_directory)]"
  using assms by (simp add: script_def main_def print_defs Let_def)

theorem main_without_marker_witness:
  "fst (script linux_host \<lparr>files = [], spawned = [], printed = []\<rparr>) = 1 \<and>
   spawned (snd (script linux_host \<lparr>files = [], spawned = [], printed = []\<rparr>)) = [] \<and>
   files (snd (script linux_host \<lparr>files = [], spawned = [], printed = []\<rparr>)) = [] \<and>
   printed (snd (script linux_host \<lparr>files = [], spawned = [], printed = []\<rparr>)) =
     [(INFO, Starting), (ERROR, Wrong_directory)]"
  using main_without_marker [of "\<lparr>files = [], spawned = [], printed = []\<rparr>" linux_host]
  by (simp add: path_exists_def lookup_def)

text \<open>
  C6, as the code has it. The claim says that an absent toolchain is found after exactly one
  version query each for the compiler and the package manager. Both queries sit in one
  \<open>try\<close> block: when the compiler's query fails (the executable is missing or exits
  non-zero) the handler runs at once and the package manager is never queried. So: with the
  marker file present, if either query fails the exit code is 1 and the processes started
  are the compiler's query alone when that fails, both queries otherwise; no installation
  and no build is started.
\<close>

theorem toolchain_absent_exits:
  assumes marker: "path_exists (files w) [''Cargo.toml'']"
      and absent: "failed (spawn e [''rustc'', ''--version''] (files w)) \<or>
                   failed (spawn e [''cargo'', ''--version'']
                             (after (spawn e [''rustc'', ''--version''] (files w)) (files w)))"
  shows "fst (script e w) = 1 \<and>
         spawned (snd (script e w)) =
           spawned w @
             (if failed (spawn e [''rustc'', ''--version''] (files w)) then [[''rustc'', ''--version'']]
              else [[''rustc'', ''--version''], [''cargo'', ''--version'']])"
proof (cases "failed (spawn e [''rustc'', ''--version''] (files w))")
  case True
  with marker show ?thesis
    by (auto simp add: script_def main_def check_rust_installed_def run_command_def
          subprocess_run_def print_defs Let_def failed_def split: proc.splits)
next
  case False
  with absent have cargo: "failed (spawn e [''cargo'', ''--version'']
                             (after (spawn e [''rustc'', ''--version''] (files w)) (files w)))"
    by simp
  from False obtain so se f where rustc: "spawn e [''rustc'', ''--version''] (files w) = Exited 0 so se f"
    by (auto simp add: failed_def split: proc.splits)
  with cargo have "failed (spawn e [''cargo'', ''--version''] f)"
    by (simp add: after_def)
  with marker rustc False show ?thesis
    by (auto simp add: script_def main_def check_rust_installed_def run_command_def
          subprocess_run_def print_defs Let_def failed_def split: proc.splits)
qed

theorem toolchain_absent_exits_witness:
  "fst (script (demo_host ''Linux'' [''cargo''] []) project) = 1 \<and>
   spawned (snd (script (demo_host ''Linux'' [''cargo''] []) project)) =
     [[''rustc'', ''--version''], [''cargo'', ''--version'']]"
proof -
  have marker: "path_exists (files project) [''Cargo.toml'']"
    by code_simp
  have absent: "failed (spawn (demo_host ''Linux'' [''cargo''] []) [''rustc'', ''--version''] (files project)) \<or>
      failed (spawn (demo_host ''Linux'' [''cargo''] []) [''cargo'', ''--version'']
         (after (spawn (demo_host ''Linux'' [''cargo''] []) [''rustc'', ''--version''] (files project)) (files project)))"
    by code_simp
  have rustc: "\<not> failed (spawn (demo_host ''Linux'' [''cargo''] []) [''rustc'', ''--version''] (files project))"
    by code_simp
  have "spawned project = []"
    by (simp add: project_def)
  with toolchain_absent_exits [OF marker absent] rustc show ?thesis
    by simp
qed

text \<open>
  Neither executable is installed: the run ends with exit code 1 after the compiler's query
  alone; the package manager's query is not among the processes started.
\<close>

theorem one_attempt_each_counterexample:
  "fst (script (demo_host ''Linux'' [''rustc'', ''cargo''] []) project) = 1 \<and>
   spawned (snd (script (demo_host ''Linux'' [''rustc'', ''cargo''] []) project)) = [[''rustc'', ''--version'']]"
  by code_simp

subsection \<open>The file system\<close>

lemma lookup_store [simp]: "lookup (store p n f) q = (if q = p then Some n else lookup f q)"
  by (simp add: lookup_def store_def update_conv')

lemma path_facts [simp]:
  "artifact t \<noteq> []"
  "butlast (artifact t) = release_dir"
  "last (artifact t) = ''rbx-studio-mcp-'' @ t"
  "artifact t \<noteq> release_dir"
  "binary_path t \<noteq> release_dir"
  "binary_path t \<noteq> artifact t'"
  "artifact t' \<noteq> binary_path t"
  "release_dir \<noteq> []"
  "checksum_file \<noteq> release_dir"
  "checksum_file \<noteq> []"
  "butlast checksum_file = release_dir"
  "binary_path t \<noteq> checksum_file"
  "release_dir \<noteq> artifact t"
  "release_dir \<noteq> binary_path t"
  "release_dir \<noteq> checksum_file"
  "checksum_file \<noteq> artifact t"
  "artifact t \<noteq> checksum_file"
  "checksum_file \<noteq> binary_path t"
  by (simp_all add: artifact_def release_dir_def binary_path_def checksum_file_def)

lemma artifact_inject [simp]: "artifact t = artifact t' \<longleftrightarrow> t = t'"
  by (simp add: artifact_def)


lemma can_read_not_dir: "can_read f p \<Longrightarrow> p \<noteq> [] \<Longrightarrow> \<not> is_dir f p"
  by (auto simp add: can_read_def is_dir_def)


subsection \<open>Collecting the binaries\<close>






subsection \<open>The skip policy\<close>










subsection \<open>The manifest\<close>








lemma open_w_succeeds:
  assumes "is_dir f release_dir" and "can_write f checksum_file"
  shows "\<exists>f1. open_w e checksum_file f = Inr f1"
  using assms
  by (auto simp add: open_w_def is_dir_def can_write_def path_exists_def
        split: option.splits node.splits)

















subsection \<open>What the later steps know of the builds\<close>












end
